theory Spec2Isabelle
  imports Complex_Main "HOL-Library.Multiset"
begin

section \<open>RCNNProposal: the final detection stage of Faster R-CNN\<close>

text \<open>
  A shallow embedding of \<^verbatim>\<open>luminoth/models/fasterrcnn/rcnn_proposal.py\<close>.

  Tensors of rank one are lists, tensors of rank two are lists of rows. The number of
  proposals is not known before the graph runs (the docstring of \<^verbatim>\<open>_build\<close> says so),
  so every TensorFlow operation is modelled by what its kernel does at run time on
  tensors of the shapes it is given. Values of type float32 are modelled as real numbers:
  rounding, infinities and NaN are outside the model.

  A failed \<^verbatim>\<open>tf.assert_equal\<close> is the error \<open>ShapeMismatch\<close>; a TensorFlow
  operation that rejects its arguments is the error \<open>InvalidArgument\<close>.
  \<open>InvalidConfiguration\<close> is the name the specification gives to a rejected
  configuration.
\<close>

datatype error = ShapeMismatch | InvalidConfiguration | InvalidArgument

type_synonym box = "real \<times> real \<times> real \<times> real"

text \<open>Sequencing: the first error ends the computation, as a raised exception does.\<close>

definition and_then :: "error + 'a \<Rightarrow> ('a \<Rightarrow> error + 'b) \<Rightarrow> error + 'b" where
  "and_then m f = (case m of Inl e \<Rightarrow> Inl e | Inr x \<Rightarrow> f x)"

subsection \<open>Configuration and constructor\<close>

record config =
  class_max_detections :: int
  class_nms_threshold :: real
  total_max_detections :: int
  min_prob_threshold :: "real option"

record rcnn_proposal =
  self_num_classes :: nat
  self_class_max_detections :: int
  self_class_nms_threshold :: real
  self_total_max_detections :: int
  self_min_prob_threshold :: real

text \<open>
  \<^verbatim>\<open>__init__\<close> (lines 26-42) stores the four values of the configuration;
  \<^verbatim>\<open>config.min_prob_threshold or 0.0\<close> replaces a missing or zero threshold by 0.0.
  Nothing is checked.
\<close>

definition init :: "nat \<Rightarrow> config \<Rightarrow> rcnn_proposal" where
  "init num_classes cfg =
     \<lparr> self_num_classes = num_classes,
       self_class_max_detections = class_max_detections cfg,
       self_class_nms_threshold = class_nms_threshold cfg,
       self_total_max_detections = total_max_detections cfg,
       self_min_prob_threshold =
         (case min_prob_threshold cfg of
            None \<Rightarrow> 0
          | Some t \<Rightarrow> (if t = 0 then 0 else t)) \<rparr>"

subsection \<open>TensorFlow operations\<close>

text \<open>
  \<^verbatim>\<open>tf.reduce_max\<close> along a row, and \<^verbatim>\<open>tf.argmax\<close>: the index of the first
  occurrence of the largest value. The arg-max kernel rejects an empty reduction axis.
\<close>

definition reduce_max :: "real list \<Rightarrow> real" where
  "reduce_max row = (case row of [] \<Rightarrow> 0 | v # vs \<Rightarrow> fold max vs v)"

definition argmax :: "real list \<Rightarrow> nat" where
  "argmax row = length (takeWhile (\<lambda>v. v < reduce_max row) row)"

text \<open>
  \<^verbatim>\<open>tf.boolean_mask(tensor, mask)\<close> is \<^verbatim>\<open>gather(tensor, where(mask))\<close>: the rows of
  the tensor at the positions where the mask is true. A mask shorter than the tensor
  leaves the rows beyond it out; a true entry beyond the tensor is an index out of
  range, which gather rejects.
\<close>

fun boolean_mask :: "'a list \<Rightarrow> bool list \<Rightarrow> error + 'a list" where
  "boolean_mask xs [] = Inr []"
| "boolean_mask [] (m # ms) =
     (if m then Inl InvalidArgument else boolean_mask [] ms)"
| "boolean_mask (x # xs) (m # ms) =
     (case boolean_mask xs ms of
        Inl e \<Rightarrow> Inl e
      | Inr r \<Rightarrow> Inr (if m then x # r else r))"

text \<open>\<^verbatim>\<open>tf.gather\<close> along axis 0; an index out of range is rejected.\<close>

definition gather :: "'a list \<Rightarrow> nat list \<Rightarrow> error + 'a list" where
  "gather xs indices =
     (if list_all (\<lambda>i. i < length xs) indices
      then Inr (map (\<lambda>i. xs ! i) indices)
      else Inl InvalidArgument)"

text \<open>\<^verbatim>\<open>tf.one_hot(indices, depth)\<close>: an index outside \<open>0..<depth\<close> gives a row of zeros.\<close>

definition one_hot :: "int list \<Rightarrow> nat \<Rightarrow> real list list" where
  "one_hot indices depth =
     map (\<lambda>l. map (\<lambda>c. if l = int c then 1 else 0) [0..<depth]) indices"

text \<open>
  \<^verbatim>\<open>tf.reshape(t, [-1, 4])\<close>: the values in row-major order, four to a row; rejected
  when their number is not a multiple of four.
\<close>

fun rows_of_four :: "real list \<Rightarrow> box list" where
  "rows_of_four (a # b # c # d # rest) = (a, b, c, d) # rows_of_four rest"
| "rows_of_four rest = []"

definition reshape_4 :: "real list list \<Rightarrow> error + box list" where
  "reshape_4 t =
     (if length (concat t) mod 4 = 0 then Inr (rows_of_four (concat t))
      else Inl InvalidArgument)"

text \<open>
  \<^verbatim>\<open>tf.image.non_max_suppression\<close>. Boxes are \<open>(y1, x1, y2, x2)\<close>. The kernel
  orders the candidates by descending score and walks through them; a candidate is
  selected unless its intersection-over-union with a box selected before is greater than
  the threshold, and the walk stops once \<open>min(max_output_size, number of boxes)\<close>
  candidates are selected. A box of area zero overlaps nothing. The threshold must lie in
  \<open>[0, 1]\<close> and the output size must not be negative.
\<close>

definition box_area :: "box \<Rightarrow> real" where
  "box_area b =
     (case b of (y1, x1, y2, x2) \<Rightarrow> (max y1 y2 - min y1 y2) * (max x1 x2 - min x1 x2))"

definition intersection_area :: "box \<Rightarrow> box \<Rightarrow> real" where
  "intersection_area a b =
     (case a of (ya1, xa1, ya2, xa2) \<Rightarrow>
      case b of (yb1, xb1, yb2, xb2) \<Rightarrow>
        max (min (max ya1 ya2) (max yb1 yb2) - max (min ya1 ya2) (min yb1 yb2)) 0
        * max (min (max xa1 xa2) (max xb1 xb2) - max (min xa1 xa2) (min xb1 xb2)) 0)"

definition iou_greater_than_threshold :: "box \<Rightarrow> box \<Rightarrow> real \<Rightarrow> bool" where
  "iou_greater_than_threshold a b iou_threshold =
     (if box_area a \<le> 0 then False
      else if box_area b \<le> 0 then False
      else iou_threshold
             < intersection_area a b / (box_area a + box_area b - intersection_area a b))"

fun nms_loop :: "box list \<Rightarrow> real \<Rightarrow> nat \<Rightarrow> nat list \<Rightarrow> nat list \<Rightarrow> nat list" where
  "nms_loop boxes iou_threshold output_size [] selected = selected"
| "nms_loop boxes iou_threshold output_size (i # candidates) selected =
     (if output_size \<le> length selected then selected
      else if list_ex (\<lambda>j. iou_greater_than_threshold (boxes ! i) (boxes ! j) iou_threshold)
                selected
      then nms_loop boxes iou_threshold output_size candidates selected
      else nms_loop boxes iou_threshold output_size candidates (selected @ [i]))"

definition non_max_suppression ::
  "box list \<Rightarrow> real list \<Rightarrow> int \<Rightarrow> real \<Rightarrow> error + nat list" where
  "non_max_suppression boxes scores max_output_size iou_threshold =
     (if length scores = length boxes \<and> 0 \<le> max_output_size
         \<and> 0 \<le> iou_threshold \<and> iou_threshold \<le> 1
      then Inr (nms_loop boxes iou_threshold (min (nat max_output_size) (length boxes))
                  (sort_key (\<lambda>i. - (scores ! i)) [0..<length boxes]) [])
      else Inl InvalidArgument)"

text \<open>
  \<^verbatim>\<open>tf.nn.top_k(values, k)\<close>: the \<open>k\<close> largest values in descending order and their
  indices; of two equal values the one with the lower index comes first.
\<close>

definition top_k :: "real list \<Rightarrow> int \<Rightarrow> error + (real list \<times> nat list)" where
  "top_k values' k =
     (if 0 \<le> k \<and> k \<le> int (length values')
      then (let indices = take (nat k) (sort_key (\<lambda>i. - (values' ! i)) [0..<length values'])
            in Inr (map (\<lambda>i. values' ! i) indices, indices))
      else Inl InvalidArgument)"

text \<open>\<^verbatim>\<open>tf.concat(values, axis=0)\<close> of a Python list of tensors; an empty list is rejected.\<close>

definition tf_concat :: "'a list list \<Rightarrow> error + 'a list" where
  "tf_concat values' = (if values' = [] then Inl InvalidArgument else Inr (concat values'))"

subsection \<open>Box transformations of \<^verbatim>\<open>luminoth.utils.bbox_transform_tf\<close>\<close>

text \<open>
  Modelled from the spec: \<^verbatim>\<open>decode\<close> is imported from
  \<^verbatim>\<open>luminoth.utils.bbox_transform_tf\<close>, which is not among the sources. Section 4.3:
  the proposal is the reference box with centre \<open>(cx, cy)\<close> and size \<open>(w, h)\<close>;
  \<open>cx' = cx + dx * w\<close>, \<open>cy' = cy + dy * h\<close>, \<open>w' = w * exp dw\<close>,
  \<open>h' = h * exp dh\<close>, and the box is rebuilt from \<open>(cx', cy', w', h')\<close>.
  A proposal row that does not hold four coordinates cannot be split into them, and the
  proposals and the deltas must pair up row by row.
\<close>

definition decode_box :: "box \<Rightarrow> box \<Rightarrow> box" where
  "decode_box roi delta =
     (case roi of (x_min, y_min, x_max, y_max) \<Rightarrow>
      case delta of (dx, dy, dw, dh) \<Rightarrow>
        (let w = x_max - x_min; h = y_max - y_min;
             cx = x_min + w / 2; cy = y_min + h / 2;
             cx' = cx + dx * w; cy' = cy + dy * h;
             w' = w * exp dw; h' = h * exp dh
         in (cx' - w' / 2, cy' - h' / 2, cx' + w' / 2, cy' + h' / 2)))"

fun as_box :: "real list \<Rightarrow> box option" where
  "as_box [a, b, c, d] = Some (a, b, c, d)"
| "as_box row = None"

definition decode :: "real list list \<Rightarrow> box list \<Rightarrow> error + box list" where
  "decode roi deltas =
     (case those (map as_box roi) of
        None \<Rightarrow> Inl InvalidArgument
      | Some rois \<Rightarrow>
          (if length rois = length deltas then Inr (map2 decode_box rois deltas)
           else Inl InvalidArgument))"

text \<open>
  Modelled from the spec: \<^verbatim>\<open>clip_boxes\<close> is not among the sources. Section 4.4: each
  coordinate is clamped on its own, \<open>x\<close> to \<open>[0, width - 1]\<close> and \<open>y\<close> to
  \<open>[0, height - 1]\<close>; the image shape is \<open>(height, width)\<close>.
\<close>

definition clamp :: "real \<Rightarrow> real \<Rightarrow> real" where
  "clamp hi v = max (min v hi) 0"

definition clip_boxes :: "box list \<Rightarrow> nat \<times> nat \<Rightarrow> box list" where
  "clip_boxes bboxes im_shape =
     (case im_shape of (height, width) \<Rightarrow>
        map (\<lambda>(x_min, y_min, x_max, y_max).
               (clamp (real width - 1) x_min, clamp (real height - 1) y_min,
                clamp (real width - 1) x_max, clamp (real height - 1) y_max)) bboxes)"

text \<open>
  Modelled from the spec: \<^verbatim>\<open>change_order\<close> is not among the sources. It converts
  between the order \<open>(x_min, y_min, x_max, y_max)\<close> of the module and the order
  \<open>(y_min, x_min, y_max, x_max)\<close> of TensorFlow (lines 141-144 and 180-181), in both
  directions.
\<close>

definition change_order :: "box list \<Rightarrow> box list" where
  "change_order bboxes = map (\<lambda>(a, b, c, d). (b, a, d, c)) bboxes"

subsection \<open>The stages of \<^verbatim>\<open>_build\<close>\<close>

text \<open>
  Lines 73-87: the label of a proposal is the arg-max of its probabilities minus one, its
  probability is their maximum, and the filter keeps the proposals that are not
  background and reach the threshold.
\<close>

definition proposal_filter :: "rcnn_proposal \<Rightarrow> real list list \<Rightarrow> bool list" where
  "proposal_filter self cls_prob =
     map (\<lambda>row. 0 \<le> int (argmax row) - 1 \<and> self_min_prob_threshold self \<le> reduce_max row)
       cls_prob"

text \<open>
  Lines 69-101. \<^verbatim>\<open>tf.equal\<close> on the inner dimension of the proposals (line 70) is a
  comparison, not an assertion: its value is never looked at, and the batch column is
  sliced off whatever the width. The assertion of line 89 compares the row counts of the
  proposals and of \<^verbatim>\<open>bbox_pred\<close>. Then all four tensors go through the filter.
\<close>

definition label_assigner ::
  "rcnn_proposal \<Rightarrow> real list list \<Rightarrow> real list list \<Rightarrow> real list list
     \<Rightarrow> error + (real list list \<times> int list \<times> real list \<times> real list list)" where
  "label_assigner self proposals bbox_pred cls_prob =
     (let proposals1 = map (drop 1) proposals in
      if list_ex (\<lambda>row. row = []) cls_prob then Inl InvalidArgument
      else
        (let proposal_label = map (\<lambda>row. int (argmax row) - 1) cls_prob;
             proposal_label_prob = map reduce_max cls_prob;
             flt = proposal_filter self cls_prob
         in if length proposals1 = length bbox_pred then
              and_then (boolean_mask proposals1 flt) (\<lambda>ps.
              and_then (boolean_mask proposal_label flt) (\<lambda>ls.
              and_then (boolean_mask proposal_label_prob flt) (\<lambda>prs.
              and_then (boolean_mask bbox_pred flt) (\<lambda>bs.
                Inr (ps, ls, prs, bs)))))
            else Inl ShapeMismatch))"

text \<open>
  Lines 103-120: the one-hot encoding of the labels, flattened, picks out of the deltas
  of each proposal, reshaped to rows of four, the row of its label. The assertion of
  line 114 compares the two lengths.
\<close>

definition delta_gatherer :: "rcnn_proposal \<Rightarrow> int list \<Rightarrow> real list list \<Rightarrow> error + box list" where
  "delta_gatherer self proposal_label bbox_pred =
     (let label_one_hot = one_hot proposal_label (self_num_classes self);
          label_one_hot_flatten = map (\<lambda>v. v \<noteq> 0) (concat label_one_hot)
      in and_then (reshape_4 bbox_pred) (\<lambda>bbox_pred_flatten.
           if length bbox_pred_flatten = length label_one_hot_flatten
           then boolean_mask bbox_pred_flatten label_one_hot_flatten
           else Inl ShapeMismatch))"

text \<open>Lines 127-139: the filter on the area of the clipped boxes.\<close>

definition object_filter :: "box list \<Rightarrow> bool list" where
  "object_filter clipped_objects =
     map (\<lambda>(x_min, y_min, x_max, y_max).
            0 \<le> max (x_max - x_min) 0 * max (y_max - y_min) 0) clipped_objects"

definition validity_filter ::
  "box list \<Rightarrow> int list \<Rightarrow> real list \<Rightarrow> error + (box list \<times> int list \<times> real list)" where
  "validity_filter clipped_objects proposal_label proposal_label_prob =
     (let flt = object_filter clipped_objects in
      and_then (boolean_mask clipped_objects flt) (\<lambda>objs.
      and_then (boolean_mask proposal_label flt) (\<lambda>ls.
      and_then (boolean_mask proposal_label_prob flt) (\<lambda>prs.
        Inr (objs, ls, prs)))))"

text \<open>
  Lines 150-175, one pass of the loop: the boxes and probabilities of one class, the
  suppression among them, and the class id repeated once for each box selected.
\<close>

definition class_nms ::
  "rcnn_proposal \<Rightarrow> box list \<Rightarrow> int list \<Rightarrow> real list \<Rightarrow> nat
     \<Rightarrow> error + (box list \<times> real list \<times> int list)" where
  "class_nms self objects_tf proposal_label proposal_label_prob class_id =
     (let class_filter = map (\<lambda>l. l = int class_id) proposal_label in
      and_then (boolean_mask objects_tf class_filter) (\<lambda>class_objects_tf.
      and_then (boolean_mask proposal_label_prob class_filter) (\<lambda>class_prob.
      and_then (non_max_suppression class_objects_tf class_prob
                  (self_class_max_detections self) (self_class_nms_threshold self))
        (\<lambda>class_selected_idx.
      and_then (gather class_objects_tf class_selected_idx) (\<lambda>sel_objects.
      and_then (gather class_prob class_selected_idx) (\<lambda>sel_prob.
        Inr (sel_objects, sel_prob,
             replicate (length class_selected_idx) (int class_id))))))))"

text \<open>The loop over the classes, appending to the three Python lists.\<close>

fun per_class_nms ::
  "rcnn_proposal \<Rightarrow> box list \<Rightarrow> int list \<Rightarrow> real list \<Rightarrow> nat list
     \<Rightarrow> box list list \<times> real list list \<times> int list list
     \<Rightarrow> error + (box list list \<times> real list list \<times> int list list)" where
  "per_class_nms self objects_tf proposal_label proposal_label_prob [] acc = Inr acc"
| "per_class_nms self objects_tf proposal_label proposal_label_prob (class_id # rest) acc =
     and_then (class_nms self objects_tf proposal_label proposal_label_prob class_id)
       (\<lambda>(b, p, l).
          case acc of (selected_boxes, selected_probs, selected_labels) \<Rightarrow>
            per_class_nms self objects_tf proposal_label proposal_label_prob rest
              (selected_boxes @ [b], selected_probs @ [p], selected_labels @ [l]))"

text \<open>Lines 177-193: the concatenation of the classes and the best \<open>k\<close> overall.\<close>

definition top_k_selector ::
  "rcnn_proposal \<Rightarrow> box list list \<Rightarrow> real list list \<Rightarrow> int list list
     \<Rightarrow> error + (box list \<times> int list \<times> real list)" where
  "top_k_selector self selected_boxes selected_probs selected_labels =
     and_then (tf_concat selected_boxes) (\<lambda>objects_tf.
     and_then (tf_concat selected_labels) (\<lambda>proposal_label.
     and_then (tf_concat selected_probs) (\<lambda>proposal_label_prob.
       (let objects = change_order objects_tf;
            k = min (self_total_max_detections self) (int (length proposal_label_prob))
        in and_then (top_k proposal_label_prob k) (\<lambda>(top_values, top_indices).
           and_then (gather objects top_indices) (\<lambda>top_k_objects.
           and_then (gather proposal_label top_indices) (\<lambda>top_k_label.
             Inr (top_k_objects, top_k_label, top_values))))))))"

subsection \<open>\<^verbatim>\<open>_build\<close>\<close>

record detections =
  raw_objects :: "box list"
  objects :: "box list"
  proposal_label :: "int list"
  proposal_label_prob :: "real list"
  selected_boxes :: "box list list"
  selected_probs :: "real list list"
  selected_labels :: "int list list"

text \<open>Lines 69-120: the surviving proposals with their labels, probabilities and deltas.\<close>

definition assign_and_gather ::
  "rcnn_proposal \<Rightarrow> real list list \<Rightarrow> real list list \<Rightarrow> real list list
     \<Rightarrow> error + (real list list \<times> int list \<times> real list \<times> box list)" where
  "assign_and_gather self proposals bbox_pred cls_prob =
     and_then (label_assigner self proposals bbox_pred cls_prob)
       (\<lambda>(proposals1, label1, prob1, bbox_pred1).
     and_then (delta_gatherer self label1 bbox_pred1) (\<lambda>bbox_pred2.
       Inr (proposals1, label1, prob1, bbox_pred2)))"

text \<open>Lines 124-203: from the decoded boxes to the dictionary that is returned.\<close>

definition select_detections ::
  "rcnn_proposal \<Rightarrow> box list \<Rightarrow> int list \<Rightarrow> real list \<Rightarrow> nat \<times> nat
     \<Rightarrow> error + detections" where
  "select_detections self raw label1 prob1 im_shape =
     and_then (validity_filter (clip_boxes raw im_shape) label1 prob1)
       (\<lambda>(objs, label2, prob2).
     and_then (per_class_nms self (change_order objs) label2 prob2
                 [0..<self_num_classes self] ([], [], []))
       (\<lambda>(sel_boxes, sel_probs, sel_labels).
     and_then (top_k_selector self sel_boxes sel_probs sel_labels)
       (\<lambda>(top_k_objects, top_k_label, top_k_prob).
        Inr \<lparr> raw_objects = raw, objects = top_k_objects, proposal_label = top_k_label,
              proposal_label_prob = top_k_prob, selected_boxes = sel_boxes,
              selected_probs = sel_probs, selected_labels = sel_labels \<rparr>)))"

definition build ::
  "rcnn_proposal \<Rightarrow> real list list \<Rightarrow> real list list \<Rightarrow> real list list \<Rightarrow> nat \<times> nat
     \<Rightarrow> error + detections" where
  "build self proposals bbox_pred cls_prob im_shape =
     and_then (assign_and_gather self proposals bbox_pred cls_prob)
       (\<lambda>(proposals1, label1, prob1, bbox_pred2).
     and_then (decode proposals1 bbox_pred2) (\<lambda>raw.
       select_detections self raw label1 prob1 im_shape))"

subsection \<open>Intersection over union\<close>

text \<open>
  The ratio of the area of the intersection of two boxes to the area of their union
  (glossary of the specification), for boxes in the order of TensorFlow. The ratio is
  meant for boxes that have an area: then the union has an area, and a box has the ratio
  1 with itself. Division by zero is zero in HOL, so for two boxes without area the
  definition gives 0, where the glossary gives identical boxes 1; the claims use the
  ratio for boxes with an area only.
\<close>

definition iou :: "box \<Rightarrow> box \<Rightarrow> real" where
  "iou a b = intersection_area a b / (box_area a + box_area b - intersection_area a b)"

subsection \<open>The scenario of the specification\<close>

definition scenario_config :: config where
  "scenario_config =
     \<lparr> class_max_detections = 10, class_nms_threshold = 3 / 10,
       total_max_detections = 5, min_prob_threshold = Some (1 / 2) \<rparr>"

definition scenario_proposals :: "real list list" where
  "scenario_proposals = [[0, 0, 0, 10, 10], [0, 1, 1, 11, 11], [0, 50, 50, 60, 60]]"

definition scenario_bbox_pred :: "real list list" where
  "scenario_bbox_pred = replicate 3 (replicate 8 0)"

definition scenario_cls_prob :: "real list list" where
  "scenario_cls_prob =
     [[1 / 10, 8 / 10, 1 / 10], [1 / 10, 75 / 100, 15 / 100], [5 / 100, 5 / 100, 9 / 10]]"

text \<open>What the module returns on the scenario.\<close>

definition scenario_result :: detections where
  "scenario_result =
     \<lparr> raw_objects = [(0, 0, 10, 10), (1, 1, 11, 11), (50, 50, 60, 60)],
       objects = [(50, 50, 60, 60), (0, 0, 10, 10)], proposal_label = [1, 0],
       proposal_label_prob = [9 / 10, 8 / 10],
       selected_boxes = [[(0, 0, 10, 10)], [(50, 50, 60, 60)]],
       selected_probs = [[8 / 10], [9 / 10]], selected_labels = [[0], [1]] \<rparr>"

subsection \<open>Further inputs\<close>

text \<open>Two boxes of one class whose intersection over union is exactly the threshold 1/2.\<close>

definition tie_config :: config where
  "tie_config =
     \<lparr> class_max_detections = 10, class_nms_threshold = 1 / 2,
       total_max_detections = 5, min_prob_threshold = None \<rparr>"

definition tie_proposals :: "real list list" where
  "tie_proposals = [[0, 0, 0, 3, 1], [0, 1, 0, 4, 1]]"

definition tie_bbox_pred :: "real list list" where
  "tie_bbox_pred = [[0, 0, 0, 0], [0, 0, 0, 0]]"

definition tie_cls_prob :: "real list list" where
  "tie_cls_prob = [[1 / 10, 9 / 10], [2 / 10, 8 / 10]]"

definition tie_result :: detections where
  "tie_result =
     \<lparr> raw_objects = [(0, 0, 3, 1), (1, 0, 4, 1)],
       objects = [(0, 0, 3, 1), (1, 0, 4, 1)], proposal_label = [0, 0],
       proposal_label_prob = [9 / 10, 8 / 10],
       selected_boxes = [[(0, 0, 1, 3), (0, 1, 1, 4)]],
       selected_probs = [[9 / 10, 8 / 10]], selected_labels = [[0, 0]] \<rparr>"

text \<open>The scenario with the probabilities of its first proposal only.\<close>

definition short_cls_prob :: "real list list" where
  "short_cls_prob = [[1 / 10, 8 / 10, 1 / 10]]"

text \<open>The proposals of the scenario without the batch column: rows of four values.\<close>

definition narrow_proposals :: "real list list" where
  "narrow_proposals = [[0, 0, 10, 10], [1, 1, 11, 11], [50, 50, 60, 60]]"


subsection \<open>Calling the module on what it returned\<close>

text \<open>
  The objects that a call returned as proposals, each with a batch tag in front, and the
  deltas of that many proposals, all zero.
\<close>

definition as_proposals :: "real \<Rightarrow> box list \<Rightarrow> real list list" where
  "as_proposals tag bboxes =
     map (\<lambda>(x_min, y_min, x_max, y_max). [tag, x_min, y_min, x_max, y_max]) bboxes"



section \<open>Properties\<close>

subsection \<open>Sequencing and masks\<close>

lemma and_then_simps [simp]:
  "and_then (Inl e) f = Inl e" "and_then (Inr x) f = f x"
  by (simp_all add: and_then_def)

lemma and_then_eq_Inr:
  "and_then m f = Inr y \<longleftrightarrow> (\<exists>x. m = Inr x \<and> f x = Inr y)"
  by (cases m) simp_all

lemma boolean_mask_Inr:
  "boolean_mask xs ms = Inr r \<Longrightarrow> r = map fst (filter snd (zip xs ms))"
  by (induction xs ms arbitrary: r rule: boolean_mask.induct)
     (auto split: if_splits sum.splits)

lemma boolean_mask_same_length:
  "length xs = length ms \<Longrightarrow> boolean_mask xs ms = Inr (map fst (filter snd (zip xs ms)))"
  by (induction xs ms rule: list_induct2) auto

lemma masked_nths:
  "map fst (filter snd (zip xs ms)) = nths xs {i. i < length ms \<and> ms ! i}"
proof (induction xs arbitrary: ms)
  case Nil
  then show ?case by simp
next
  case (Cons x xs)
  show ?case
  proof (cases ms)
    case Nil
    then show ?thesis by simp
  next
    case (Cons m ms')
    have "{j. Suc j < Suc (length ms') \<and> (m # ms') ! Suc j} = {j. j < length ms' \<and> ms' ! j}"
      by simp
    then show ?thesis using Cons Cons.IH [of ms'] by (simp add: nths_Cons)
  qed
qed

lemma boolean_mask_nths:
  "boolean_mask xs ms = Inr r \<Longrightarrow> r = nths xs {i. i < length ms \<and> ms ! i}"
  using boolean_mask_Inr [of xs ms r] by (simp add: masked_nths)

subsection \<open>Maximum and arg-max of a row\<close>

lemma fold_max_Max: "fold max vs (v::real) = Max (set (v # vs))"
  by (rule Max.set_eq_fold [symmetric])

lemma reduce_max_Max: "row \<noteq> [] \<Longrightarrow> reduce_max row = Max (set row)"
  by (cases row) (simp_all add: reduce_max_def fold_max_Max del: set_simps)

lemma argmax_first:
  assumes "row \<noteq> []"
  shows "argmax row < length row" and "row ! argmax row = Max (set row)"
    and "\<forall>j<argmax row. row ! j < Max (set row)"
proof -
  let ?m = "Max (set row)"
  have m: "reduce_max row = ?m" using assms by (rule reduce_max_Max)
  have "?m \<in> set row" using assms by (simp add: Max_in)
  then have ex: "\<exists>v\<in>set row. \<not> v < ?m" by auto
  have "takeWhile (\<lambda>v. v < ?m) row \<noteq> row"
    using ex by (metis set_takeWhileD)
  then show lt: "argmax row < length row"
    unfolding argmax_def m using length_takeWhile_le [of "\<lambda>v. v < ?m" row]
    by (metis takeWhile_eq_take take_all_iff le_neq_implies_less)
  have "\<not> row ! argmax row < ?m"
    unfolding argmax_def m using lt [unfolded argmax_def m] by (rule nth_length_takeWhile)
  moreover have "row ! argmax row \<le> ?m" using lt by simp
  ultimately show "row ! argmax row = ?m" by simp
  show "\<forall>j<argmax row. row ! j < ?m"
    unfolding argmax_def m
    by (metis nth_mem takeWhile_nth set_takeWhileD length_takeWhile_le)
qed

subsection \<open>Label assignment\<close>

lemma length_proposal_filter [simp]:
  "length (proposal_filter self cls_prob) = length cls_prob"
  by (simp add: proposal_filter_def)

lemma label_assigner_same_length:
  assumes "length proposals = length cls_prob" and "length bbox_pred = length cls_prob"
    and "\<forall>row\<in>set cls_prob. row \<noteq> []"
  shows "label_assigner self proposals bbox_pred cls_prob =
           Inr (nths (map (drop 1) proposals)
                  {i. i < length cls_prob \<and> proposal_filter self cls_prob ! i},
                nths (map (\<lambda>row. int (argmax row) - 1) cls_prob)
                  {i. i < length cls_prob \<and> proposal_filter self cls_prob ! i},
                nths (map reduce_max cls_prob)
                  {i. i < length cls_prob \<and> proposal_filter self cls_prob ! i},
                nths bbox_pred {i. i < length cls_prob \<and> proposal_filter self cls_prob ! i})"
proof -
  have ne: "\<not> list_ex (\<lambda>row. row = []) cls_prob"
    using assms(3) by (simp add: list_ex_iff)
  show ?thesis
    using assms(1,2) ne
    by (simp add: label_assigner_def Let_def boolean_mask_same_length masked_nths)
qed

lemma label_assigner_Inr:
  assumes "label_assigner self proposals bbox_pred cls_prob = Inr (ps, ls, prs, bs)"
  shows "ps = nths (map (drop 1) proposals)
                {i. i < length cls_prob \<and> proposal_filter self cls_prob ! i}"
    and "ls = nths (map (\<lambda>row. int (argmax row) - 1) cls_prob)
                {i. i < length cls_prob \<and> proposal_filter self cls_prob ! i}"
    and "prs = nths (map reduce_max cls_prob)
                 {i. i < length cls_prob \<and> proposal_filter self cls_prob ! i}"
    and "bs = nths bbox_pred {i. i < length cls_prob \<and> proposal_filter self cls_prob ! i}"
  using assms
  by (auto simp add: label_assigner_def Let_def and_then_eq_Inr
        split: if_splits dest!: boolean_mask_nths)

subsection \<open>The scenario, stage by stage\<close>

lemma scenario_assign_and_gather:
  "assign_and_gather (init 2 scenario_config) scenario_proposals scenario_bbox_pred
     scenario_cls_prob
   = Inr ([[0, 0, 10, 10], [1, 1, 11, 11], [50, 50, 60, 60]], [0, 0, 1],
          [4 / 5, 3 / 4, 9 / 10], [(0, 0, 0, 0), (0, 0, 0, 0), (0, 0, 0, 0)])"
  by code_simp

lemma scenario_decode:
  "decode [[0, 0, 10, 10], [1, 1, 11, 11], [50, 50, 60, 60]]
     [(0, 0, 0, 0), (0, 0, 0, 0), (0, 0, 0, 0)]
   = Inr [(0, 0, 10, 10), (1, 1, 11, 11), (50, 50, 60, 60)]"
  by (simp add: decode_def decode_box_def)

lemma scenario_select_detections:
  "select_detections (init 2 scenario_config)
     [(0, 0, 10, 10), (1, 1, 11, 11), (50, 50, 60, 60)] [0, 0, 1] [4 / 5, 3 / 4, 9 / 10]
     (100, 100)
   = Inr scenario_result"
  by code_simp

lemma scenario_build:
  "build (init 2 scenario_config) scenario_proposals scenario_bbox_pred scenario_cls_prob
     (100, 100)
   = Inr scenario_result"
  by (simp add: build_def scenario_assign_and_gather scenario_decode
        scenario_select_detections)

subsection \<open>Background rows and the area filter\<close>

lemma argmax_background:
  assumes "row \<noteq> []" and "\<forall>v\<in>set row. v \<le> hd row"
  shows "argmax row = 0"
proof -
  have "hd row \<in> set row" using assms(1) by simp
  then have "Max (set row) = hd row"
    using assms(2) by (intro Max_eqI) auto
  then have "reduce_max row = hd row"
    using assms(1) by (simp add: reduce_max_Max)
  then show ?thesis
    using assms(1) by (cases row) (simp_all add: argmax_def)
qed

lemma object_filter_all: "object_filter objs = replicate (length objs) True"
  by (induction objs) (auto simp add: object_filter_def)

lemma boolean_mask_all_True:
  "length xs = n \<Longrightarrow> boolean_mask xs (replicate n True) = Inr xs"
  by (induction xs arbitrary: n) auto

subsection \<open>Further inputs, stage by stage\<close>

lemma short_assign_and_gather:
  "assign_and_gather (init 2 scenario_config) scenario_proposals scenario_bbox_pred
     short_cls_prob
   = Inr ([[0, 0, 10, 10]], [0], [4 / 5], [(0, 0, 0, 0)])"
  by code_simp

lemma short_decode:
  "decode [[0, 0, 10, 10]] [(0, 0, 0, 0)] = Inr [(0, 0, 10, 10)]"
  by (simp add: decode_def decode_box_def)

lemma short_select_detections:
  "select_detections (init 2 scenario_config) [(0, 0, 10, 10)] [0] [4 / 5] (100, 100)
   = Inr \<lparr> raw_objects = [(0, 0, 10, 10)], objects = [(0, 0, 10, 10)],
           proposal_label = [0], proposal_label_prob = [4 / 5],
           selected_boxes = [[(0, 0, 10, 10)], []],
           selected_probs = [[4 / 5], []], selected_labels = [[0], []] \<rparr>"
  by code_simp

lemma narrow_assign_and_gather:
  "assign_and_gather (init 2 scenario_config) narrow_proposals scenario_bbox_pred
     scenario_cls_prob
   = Inr ([[0, 10, 10], [1, 11, 11], [50, 60, 60]], [0, 0, 1],
          [4 / 5, 3 / 4, 9 / 10], [(0, 0, 0, 0), (0, 0, 0, 0), (0, 0, 0, 0)])"
  by code_simp

lemma narrow_decode:
  "decode [[0, 10, 10], [1, 11, 11], [50, 60, 60]]
     [(0, 0, 0, 0), (0, 0, 0, 0), (0, 0, 0, 0)] = Inl InvalidArgument"
  by (simp add: decode_def)



lemma tie_assign_and_gather:
  "assign_and_gather (init 1 tie_config) tie_proposals tie_bbox_pred tie_cls_prob
   = Inr ([[0, 0, 3, 1], [1, 0, 4, 1]], [0, 0], [9 / 10, 4 / 5],
          [(0, 0, 0, 0), (0, 0, 0, 0)])"
  by code_simp

lemma tie_decode:
  "decode [[0, 0, 3, 1], [1, 0, 4, 1]] [(0, 0, 0, 0), (0, 0, 0, 0)]
   = Inr [(0, 0, 3, 1), (1, 0, 4, 1)]"
  by (simp add: decode_def decode_box_def)

lemma tie_select_detections:
  "select_detections (init 1 tie_config) [(0, 0, 3, 1), (1, 0, 4, 1)] [0, 0]
     [9 / 10, 4 / 5] (10, 10)
   = Inr tie_result"
  by code_simp

lemma tie_build:
  "build (init 1 tie_config) tie_proposals tie_bbox_pred tie_cls_prob (10, 10)
   = Inr tie_result"
  by (simp only: build_def tie_assign_and_gather and_then_simps prod.case tie_decode
        tie_select_detections)

subsection \<open>Decomposing a successful call\<close>

lemma gather_Inr:
  "gather xs idx = Inr r \<Longrightarrow> r = map (\<lambda>i. xs ! i) idx \<and> (\<forall>i\<in>set idx. i < length xs)"
  by (auto simp add: gather_def list_all_iff split: if_splits)

lemma non_max_suppression_Inr:
  assumes "non_max_suppression bs sc m t = Inr idx"
  shows "length sc = length bs" and "0 \<le> m" and "0 \<le> t" and "t \<le> 1"
    and "idx = nms_loop bs t (min (nat m) (length bs))
                 (sort_key (\<lambda>i. - (sc ! i)) [0..<length bs]) []"
  using assms by (auto simp add: non_max_suppression_def split: if_splits)

lemma top_k_Inr:
  assumes "top_k vs k = Inr (tv, idx)"
  shows "0 \<le> k" and "k \<le> int (length vs)"
    and "idx = take (nat k) (sort_key (\<lambda>i. - (vs ! i)) [0..<length vs])"
    and "tv = map (\<lambda>i. vs ! i) idx"
  using assms by (auto simp add: top_k_def Let_def split: if_splits)

lemma class_nms_Inr:
  assumes "class_nms self objs ls prs c = Inr (b, p, l)"
  shows "\<exists>cb cp idx.
           boolean_mask objs (map (\<lambda>l. l = int c) ls) = Inr cb
           \<and> boolean_mask prs (map (\<lambda>l. l = int c) ls) = Inr cp
           \<and> non_max_suppression cb cp (self_class_max_detections self)
                (self_class_nms_threshold self) = Inr idx
           \<and> b = map (\<lambda>i. cb ! i) idx \<and> p = map (\<lambda>i. cp ! i) idx
           \<and> l = replicate (length idx) (int c)"
  using assms
  by (auto simp add: class_nms_def Let_def and_then_eq_Inr dest!: gather_Inr)

lemma per_class_nms_Inr:
  assumes "per_class_nms self objs ls prs cs (ab, ap, al) = Inr (sb, sp, sl)"
  shows "\<exists>rs. list_all2 (\<lambda>c r. class_nms self objs ls prs c = Inr r) cs rs
              \<and> sb = ab @ map fst rs
              \<and> sp = ap @ map (\<lambda>r. fst (snd r)) rs
              \<and> sl = al @ map (\<lambda>r. snd (snd r)) rs"
  using assms
proof (induction cs arbitrary: ab ap al)
  case Nil
  then show ?case by simp
next
  case (Cons c cs)
  from Cons.prems obtain b p l where
    c: "class_nms self objs ls prs c = Inr (b, p, l)"
    and rest: "per_class_nms self objs ls prs cs (ab @ [b], ap @ [p], al @ [l])
               = Inr (sb, sp, sl)"
    by (auto simp add: and_then_eq_Inr)
  from Cons.IH [OF rest] obtain rs where
    rs: "list_all2 (\<lambda>c r. class_nms self objs ls prs c = Inr r) cs rs"
      "sb = (ab @ [b]) @ map fst rs"
      "sp = (ap @ [p]) @ map (\<lambda>r. fst (snd r)) rs"
      "sl = (al @ [l]) @ map (\<lambda>r. snd (snd r)) rs"
    by blast
  show ?case
    using c rs by (intro exI [of _ "(b, p, l) # rs"]) simp
qed

lemma top_k_selector_Inr:
  assumes "top_k_selector self sb sp sl = Inr (tobj, tlab, tp)"
  shows "\<exists>idx. sb \<noteq> [] \<and> sl \<noteq> [] \<and> sp \<noteq> []
           \<and> top_k (concat sp)
                (min (self_total_max_detections self) (int (length (concat sp))))
              = Inr (tp, idx)
           \<and> gather (change_order (concat sb)) idx = Inr tobj
           \<and> gather (concat sl) idx = Inr tlab"
  using assms
  by (auto simp add: top_k_selector_def Let_def and_then_eq_Inr tf_concat_def
        split: if_splits)

lemma select_detections_Inr:
  assumes "select_detections self raw ls prs s = Inr out"
  shows "\<exists>objs l2 p2.
           validity_filter (clip_boxes raw s) ls prs = Inr (objs, l2, p2)
           \<and> per_class_nms self (change_order objs) l2 p2 [0..<self_num_classes self]
                ([], [], [])
              = Inr (selected_boxes out, selected_probs out, selected_labels out)
           \<and> top_k_selector self (selected_boxes out) (selected_probs out)
                (selected_labels out)
              = Inr (objects out, proposal_label out, proposal_label_prob out)
           \<and> raw_objects out = raw"
  using assms
  by (auto simp add: select_detections_def and_then_eq_Inr)

lemma build_Inr:
  assumes "build self proposals bbox_pred cls_prob s = Inr out"
  shows "\<exists>ps ls prs ds raw.
           assign_and_gather self proposals bbox_pred cls_prob = Inr (ps, ls, prs, ds)
           \<and> decode ps ds = Inr raw
           \<and> select_detections self raw ls prs s = Inr out"
  using assms
  by (auto simp add: build_def and_then_eq_Inr)

subsection \<open>The suppression loop\<close>

lemma nms_loop_length:
  "length (nms_loop boxes t n cands sel) \<le> max n (length sel)"
proof (induction cands arbitrary: sel)
  case Nil
  then show ?case by simp
next
  case (Cons i cands)
  show ?case
    using Cons.IH [of sel] Cons.IH [of "sel @ [i]"]
    by (auto simp add: max_def split: if_splits)
qed

lemma nms_loop_sorted_wrt:
  "sorted_wrt (\<lambda>j i. \<not> iou_greater_than_threshold (boxes ! i) (boxes ! j) t) sel
   \<Longrightarrow> sorted_wrt (\<lambda>j i. \<not> iou_greater_than_threshold (boxes ! i) (boxes ! j) t)
         (nms_loop boxes t n cands sel)"
  by (induction cands arbitrary: sel) (auto simp add: sorted_wrt_append list_ex_iff)

lemma class_nms_count:
  assumes "class_nms self objs ls prs c = Inr (b, p, l)"
  shows "int (length b) \<le> self_class_max_detections self"
    and "length p = length b" and "length l = length b"
proof -
  from class_nms_Inr [OF assms] obtain cb cp idx where
    nms: "non_max_suppression cb cp (self_class_max_detections self)
            (self_class_nms_threshold self) = Inr idx"
    and b: "b = map (\<lambda>i. cb ! i) idx" and p: "p = map (\<lambda>i. cp ! i) idx"
    and l: "l = replicate (length idx) (int c)"
    by blast
  note n = non_max_suppression_Inr [OF nms]
  have "length idx \<le> min (nat (self_class_max_detections self)) (length cb)"
    using nms_loop_length [of cb "self_class_nms_threshold self"
        "min (nat (self_class_max_detections self)) (length cb)" _ "[]"]
    unfolding n(5) by simp
  then show "int (length b) \<le> self_class_max_detections self"
    using n(2) b by (simp add: le_nat_iff)
  show "length p = length b" "length l = length b"
    using b p l by simp_all
qed

subsection \<open>Intersection over union\<close>

lemma intersection_area_commute: "intersection_area a b = intersection_area b a"
  by (cases a, cases b) (simp add: intersection_area_def min.commute max.commute)

lemma iou_commute: "iou a b = iou b a"
  by (simp add: iou_def intersection_area_commute [of a b] add.commute)

lemma box_area_nonneg: "0 \<le> box_area a"
  by (cases a) (simp add: box_area_def)

lemma intersection_area_no_area:
  assumes "box_area a \<le> 0"
  shows "intersection_area a b = 0"
proof -
  obtain ya1 xa1 ya2 xa2 where a: "a = (ya1, xa1, ya2, xa2)" by (cases a)
  obtain yb1 xb1 yb2 xb2 where b: "b = (yb1, xb1, yb2, xb2)" by (cases b)
  have "box_area a = 0"
    using assms box_area_nonneg [of a] by linarith
  then have "(max ya1 ya2 - min ya1 ya2) * (max xa1 xa2 - min xa1 xa2) = 0"
    by (simp only: a box_area_def prod.case)
  then have "max ya1 ya2 - min ya1 ya2 = 0 \<or> max xa1 xa2 - min xa1 xa2 = 0"
    by simp
  then have "max (min (max ya1 ya2) (max yb1 yb2) - max (min ya1 ya2) (min yb1 yb2)) 0 = 0
             \<or> max (min (max xa1 xa2) (max xb1 xb2) - max (min xa1 xa2) (min xb1 xb2)) 0 = 0"
    by (auto simp add: max_def min_def split: if_splits)
  then show ?thesis
    by (auto simp add: a b intersection_area_def)
qed

lemma iou_greater_than_threshold_iff:
  assumes "0 \<le> t"
  shows "iou_greater_than_threshold a b t \<longleftrightarrow> t < iou a b"
proof (cases "box_area a \<le> 0 \<or> box_area b \<le> 0")
  case True
  then have "intersection_area a b = 0"
    using intersection_area_no_area [of a b] intersection_area_no_area [of b a]
    by (auto simp add: intersection_area_commute [of a b])
  then have "iou a b = 0" by (simp add: iou_def)
  then show ?thesis
    using True assms by (auto simp add: iou_greater_than_threshold_def)
next
  case False
  then show ?thesis
    by (simp add: iou_greater_than_threshold_def iou_def)
qed

lemma class_nms_pairwise:
  assumes "class_nms self objs ls prs c = Inr (b, p, l)"
  shows "sorted_wrt (\<lambda>x y. iou x y \<le> self_class_nms_threshold self) b"
proof -
  from class_nms_Inr [OF assms] obtain cb cp idx where
    nms: "non_max_suppression cb cp (self_class_max_detections self)
            (self_class_nms_threshold self) = Inr idx"
    and b: "b = map (\<lambda>i. cb ! i) idx"
    by blast
  note n = non_max_suppression_Inr [OF nms]
  have "sorted_wrt (\<lambda>j i. \<not> iou_greater_than_threshold (cb ! i) (cb ! j)
                              (self_class_nms_threshold self)) idx"
    unfolding n(5) by (rule nms_loop_sorted_wrt) simp
  then have "sorted_wrt (\<lambda>j i. iou (cb ! j) (cb ! i) \<le> self_class_nms_threshold self) idx"
    by (simp add: iou_greater_than_threshold_iff [OF n(3)] not_less iou_commute)
  then show ?thesis
    by (simp add: b sorted_wrt_map)
qed

subsection \<open>The classes of a successful call\<close>

lemma build_classes:
  assumes "build self proposals bbox_pred cls_prob s = Inr out"
  shows "\<exists>objs ls prs rs.
           list_all2 (\<lambda>c r. class_nms self objs ls prs c = Inr r)
             [0..<self_num_classes self] rs
           \<and> selected_boxes out = map fst rs
           \<and> selected_probs out = map (\<lambda>r. fst (snd r)) rs
           \<and> selected_labels out = map (\<lambda>r. snd (snd r)) rs"
proof -
  from build_Inr [OF assms] obtain raw ls prs where
    "select_detections self raw ls prs s = Inr out" by blast
  from select_detections_Inr [OF this] obtain objs l2 p2 where
    "per_class_nms self (change_order objs) l2 p2 [0..<self_num_classes self] ([], [], [])
     = Inr (selected_boxes out, selected_probs out, selected_labels out)"
    by blast
  from per_class_nms_Inr [OF this] show ?thesis by auto
qed

lemma build_selected_length:
  assumes "build self proposals bbox_pred cls_prob s = Inr out"
  shows "length (selected_boxes out) = self_num_classes self"
proof -
  from build_classes [OF assms] obtain objs ls prs rs where
    rs: "list_all2 (\<lambda>c r. class_nms self objs ls prs c = Inr r)
           [0..<self_num_classes self] rs"
    and sel: "selected_boxes out = map fst rs"
    by blast
  have "length rs = self_num_classes self"
    using rs by (simp add: list_all2_lengthD [symmetric])
  then show ?thesis by (simp add: sel)
qed

lemma build_class:
  assumes "build self proposals bbox_pred cls_prob s = Inr out"
    and "c < self_num_classes self"
  shows "\<exists>objs ls prs.
           class_nms self objs ls prs c
           = Inr (selected_boxes out ! c, selected_probs out ! c, selected_labels out ! c)"
proof -
  from build_classes [OF assms(1)] obtain objs ls prs rs where
    rs: "list_all2 (\<lambda>c r. class_nms self objs ls prs c = Inr r)
           [0..<self_num_classes self] rs"
    and sel: "selected_boxes out = map fst rs"
      "selected_probs out = map (\<lambda>r. fst (snd r)) rs"
      "selected_labels out = map (\<lambda>r. snd (snd r)) rs"
    by blast
  have len: "length rs = self_num_classes self"
    using rs by (simp add: list_all2_lengthD [symmetric])
  have "class_nms self objs ls prs c = Inr (rs ! c)"
    using list_all2_nthD [OF rs, of c] assms(2) by simp
  then show ?thesis
    using len assms(2) by (auto simp add: sel)
qed

lemma top_k_selector_bounds:
  assumes "top_k_selector self sb sp sl = Inr (tobj, tlab, tp)"
  shows "int (length tobj) \<le> self_total_max_detections self"
    and "length tlab = length tobj" and "length tp = length tobj"
    and "sorted_wrt (\<lambda>p q. q \<le> p) tp"
proof -
  from top_k_selector_Inr [OF assms] obtain idx where
    tk: "top_k (concat sp)
           (min (self_total_max_detections self) (int (length (concat sp)))) = Inr (tp, idx)"
    and g1: "gather (change_order (concat sb)) idx = Inr tobj"
    and g2: "gather (concat sl) idx = Inr tlab"
    by blast
  note t = top_k_Inr [OF tk]
  let ?k = "min (self_total_max_detections self) (int (length (concat sp)))"
  let ?srt = "sort_key (\<lambda>i. - (concat sp ! i)) [0..<length (concat sp)]"
  have len: "length idx = nat ?k"
    using t(1,2) unfolding t(3) by simp
  have "tobj = map (\<lambda>i. change_order (concat sb) ! i) idx"
    using gather_Inr [OF g1] by simp
  then have lo: "length tobj = length idx" by simp
  have "tlab = map (\<lambda>i. concat sl ! i) idx"
    using gather_Inr [OF g2] by simp
  then show "length tlab = length tobj" using lo by simp
  show "length tp = length tobj" using t(4) lo by simp
  show "int (length tobj) \<le> self_total_max_detections self"
    using lo len t(1) by simp
  have "sorted (map (\<lambda>i. - (concat sp ! i)) ?srt)"
    by (rule sorted_sort_key)
  then have "sorted_wrt (\<lambda>i j. concat sp ! j \<le> concat sp ! i) ?srt"
    by (simp add: sorted_wrt_map)
  then have "sorted_wrt (\<lambda>i j. concat sp ! j \<le> concat sp ! i) idx"
    unfolding t(3) by (rule sorted_wrt_take)
  then show "sorted_wrt (\<lambda>p q. q \<le> p) tp"
    by (simp add: t(4) sorted_wrt_map)
qed

subsection \<open>Lengths along the stages\<close>






lemma length_clip_boxes [simp]: "length (clip_boxes bs s) = length bs"
  by (cases s) (simp add: clip_boxes_def)



subsection \<open>When the suppression and the selection succeed\<close>









subsection \<open>The configuration and the outcome of a call\<close>





subsection \<open>What the suppression leaves out\<close>

lemma nms_loop_mono: "set sel \<subseteq> set (nms_loop boxes t n cands sel)"
proof (induction cands arbitrary: sel)
  case Nil
  then show ?case by simp
next
  case (Cons i cands)
  show ?case
    using Cons.IH [of sel] Cons.IH [of "sel @ [i]"] by auto
qed

lemma nms_loop_full: "n \<le> length sel \<Longrightarrow> nms_loop boxes t n cands sel = sel"
  by (cases cands) simp_all

lemma nms_loop_left_out:
  assumes "i \<in> set cands" and "i \<notin> set (nms_loop boxes t n cands sel)"
  shows "n \<le> length (nms_loop boxes t n cands sel)
         \<or> (\<exists>j\<in>set (nms_loop boxes t n cands sel).
               iou_greater_than_threshold (boxes ! i) (boxes ! j) t)"
  using assms
proof (induction cands arbitrary: sel)
  case Nil
  then show ?case by simp
next
  case (Cons a cands)
  show ?case
  proof (cases "n \<le> length sel")
    case True
    then show ?thesis by simp
  next
    case cap: False
    show ?thesis
    proof (cases "list_ex (\<lambda>j. iou_greater_than_threshold (boxes ! a) (boxes ! j) t) sel")
      case True
      then have r: "nms_loop boxes t n (a # cands) sel = nms_loop boxes t n cands sel"
        using cap by simp
      show ?thesis
      proof (cases "i = a")
        case True
        from \<open>list_ex _ sel\<close> obtain j where
          "j \<in> set sel" "iou_greater_than_threshold (boxes ! a) (boxes ! j) t"
          by (auto simp add: list_ex_iff)
        then show ?thesis
          using True nms_loop_mono [of sel boxes t n cands] unfolding r by blast
      next
        case False
        then have "i \<in> set cands" using Cons.prems(1) by simp
        then show ?thesis
          using Cons.IH [of sel] Cons.prems(2) unfolding r by blast
      qed
    next
      case False
      then have r: "nms_loop boxes t n (a # cands) sel
                    = nms_loop boxes t n cands (sel @ [a])"
        using cap by simp
      have "a \<in> set (nms_loop boxes t n cands (sel @ [a]))"
        using nms_loop_mono [of "sel @ [a]" boxes t n cands] by simp
      then have "i \<noteq> a" using Cons.prems(2) unfolding r by blast
      then have "i \<in> set cands" using Cons.prems(1) by simp
      then show ?thesis
        using Cons.IH [of "sel @ [a]"] Cons.prems(2) unfolding r by blast
    qed
  qed
qed

lemma iou_greater_than_threshold_area:
  "iou_greater_than_threshold a b t \<Longrightarrow>
     0 < box_area a \<and> 0 < box_area b \<and> t < iou a b"
  by (auto simp add: iou_greater_than_threshold_def iou_def not_le split: if_splits)

subsection \<open>The ratio for boxes that have an area\<close>

lemma overlap_le:
  "lo \<le> hi \<Longrightarrow> max (min hi hi' - max lo lo') 0 \<le> hi - (lo::real)"
  by (simp add: max_def min_def)

lemma intersection_area_le: "intersection_area a b \<le> box_area a"
proof -
  obtain ya1 xa1 ya2 xa2 where a: "a = (ya1, xa1, ya2, xa2)" by (cases a)
  obtain yb1 xb1 yb2 xb2 where b: "b = (yb1, xb1, yb2, xb2)" by (cases b)
  have y: "min ya1 ya2 \<le> max ya1 ya2" and x: "min xa1 xa2 \<le> max xa1 xa2" by simp_all
  have "max (min (max ya1 ya2) (max yb1 yb2) - max (min ya1 ya2) (min yb1 yb2)) 0
        * max (min (max xa1 xa2) (max xb1 xb2) - max (min xa1 xa2) (min xb1 xb2)) 0
        \<le> (max ya1 ya2 - min ya1 ya2) * (max xa1 xa2 - min xa1 xa2)"
  proof (rule mult_mono)
    show "max (min (max ya1 ya2) (max yb1 yb2) - max (min ya1 ya2) (min yb1 yb2)) 0
          \<le> max ya1 ya2 - min ya1 ya2"
      using y by (rule overlap_le)
    show "max (min (max xa1 xa2) (max xb1 xb2) - max (min xa1 xa2) (min xb1 xb2)) 0
          \<le> max xa1 xa2 - min xa1 xa2"
      using x by (rule overlap_le)
    show "0 \<le> max ya1 ya2 - min ya1 ya2" using y by linarith
    show "0 \<le> max (min (max xa1 xa2) (max xb1 xb2) - max (min xa1 xa2) (min xb1 xb2)) 0"
      by (rule max.cobounded2)
  qed
  then show ?thesis by (simp only: a b intersection_area_def box_area_def prod.case)
qed

lemma intersection_area_self: "intersection_area a a = box_area a"
proof -
  obtain y1 x1 y2 x2 where a: "a = (y1, x1, y2, x2)" by (cases a)
  have "max (max y1 y2 - min y1 y2) 0 = max y1 y2 - min y1 y2"
    and "max (max x1 x2 - min x1 x2) 0 = max x1 x2 - min x1 x2"
    by (simp_all add: max_def min_def)
  then show ?thesis
    by (simp add: a intersection_area_def box_area_def)
qed

lemma iou_identical: "0 < box_area a \<Longrightarrow> iou a a = 1"
  by (simp add: iou_def intersection_area_self)

lemma iou_denominator_positive:
  "0 < box_area b \<Longrightarrow> 0 < box_area a + box_area b - intersection_area a b"
  using intersection_area_le [of a b] by linarith

lemma no_area_no_suppression:
  "box_area a \<le> 0 \<or> box_area b \<le> 0 \<Longrightarrow> \<not> iou_greater_than_threshold a b t"
  by (auto simp add: iou_greater_than_threshold_def)

subsection \<open>Symmetric relations on the elements of a list\<close>





subsection \<open>Rows of one class\<close>










subsection \<open>Rows picked by distinct indices\<close>




subsection \<open>A suppression that suppresses nothing\<close>




subsection \<open>Zero deltas and boxes that are clipped already\<close>








subsection \<open>Label assignment and deltas when the module is called on what it returned\<close>











lemma length_as_proposals [simp]: "length (as_proposals tag bs) = length bs"
  by (simp add: as_proposals_def)


subsection \<open>What the selection of a class is made of\<close>




subsection \<open>What the best detections are made of\<close>


subsection \<open>A part of the detections, class by class\<close>


subsection \<open>Detections that are all kept\<close>



subsection \<open>A second call on the detections of a first\<close>







section \<open>The claims\<close>

text \<open>
  C1. On the scenario of the specification (image 100 x 100, the three proposals with
  batch tag 0, two foreground classes, all deltas zero, probability threshold 0.5,
  suppression threshold 0.3, at most 10 detections for a class and 5 overall) the module
  returns the objects (50,50,60,60) and (0,0,10,10), in this order, with labels 1 and 0
  and probabilities 0.9 and 0.8.
\<close>

theorem scenario_detections:
  "\<exists>d. build (init 2 scenario_config) scenario_proposals scenario_bbox_pred
          scenario_cls_prob (100, 100) = Inr d
       \<and> objects d = [(50, 50, 60, 60), (0, 0, 10, 10)]
       \<and> proposal_label d = [1, 0]
       \<and> proposal_label_prob d = [9 / 10, 8 / 10]"
  by (simp add: scenario_build scenario_result_def)

text \<open>
  C2. When the three inputs have the same number of rows and no row of probabilities is
  empty, the label of a row is the index of its arg-max minus one, where the arg-max is
  the first position that holds the maximum of the row, its probability is that maximum,
  and the stage returns, of all four tensors, exactly the rows whose label is at least 0
  and whose probability is at least the threshold, in their order.
\<close>

theorem label_assignment:
  assumes "length proposals = length cls_prob" and "length bbox_pred = length cls_prob"
    and "\<forall>row\<in>set cls_prob. row \<noteq> []"
  shows "(let kept = {i. i < length cls_prob
                       \<and> 0 \<le> int (argmax (cls_prob ! i)) - 1
                       \<and> self_min_prob_threshold self \<le> reduce_max (cls_prob ! i)}
          in label_assigner self proposals bbox_pred cls_prob =
               Inr (nths (map (drop 1) proposals) kept,
                    nths (map (\<lambda>row. int (argmax row) - 1) cls_prob) kept,
                    nths (map reduce_max cls_prob) kept,
                    nths bbox_pred kept))
         \<and> (\<forall>row\<in>set cls_prob.
               argmax row < length row \<and> row ! argmax row = Max (set row)
               \<and> (\<forall>j<argmax row. row ! j < Max (set row))
               \<and> reduce_max row = Max (set row))"
proof -
  have "{i. i < length cls_prob \<and> proposal_filter self cls_prob ! i}
        = {i. i < length cls_prob \<and> 0 \<le> int (argmax (cls_prob ! i)) - 1
               \<and> self_min_prob_threshold self \<le> reduce_max (cls_prob ! i)}"
    by (auto simp add: proposal_filter_def)
  then show ?thesis
    using label_assigner_same_length [OF assms, of self] assms(3)
    by (simp add: Let_def argmax_first reduce_max_Max)
qed

theorem label_assignment_witness:
  "length scenario_proposals = length scenario_cls_prob
   \<and> length scenario_bbox_pred = length scenario_cls_prob
   \<and> list_all (\<lambda>row. row \<noteq> []) scenario_cls_prob
   \<and> (let kept = {i. i < length scenario_cls_prob
                     \<and> 0 \<le> int (argmax (scenario_cls_prob ! i)) - 1
                     \<and> self_min_prob_threshold (init 2 scenario_config)
                         \<le> reduce_max (scenario_cls_prob ! i)}
        in label_assigner (init 2 scenario_config) scenario_proposals scenario_bbox_pred
             scenario_cls_prob =
             Inr (nths (map (drop 1) scenario_proposals) kept,
                  nths (map (\<lambda>row. int (argmax row) - 1) scenario_cls_prob) kept,
                  nths (map reduce_max scenario_cls_prob) kept,
                  nths scenario_bbox_pred kept))"
proof -
  have h1: "length scenario_proposals = length scenario_cls_prob"
    by (simp add: scenario_proposals_def scenario_cls_prob_def)
  have h2: "length scenario_bbox_pred = length scenario_cls_prob"
    by (simp add: scenario_bbox_pred_def scenario_cls_prob_def)
  have h3: "\<forall>row\<in>set scenario_cls_prob. row \<noteq> []"
    by (simp add: scenario_cls_prob_def)
  have h3': "list_all (\<lambda>row. row \<noteq> []) scenario_cls_prob"
    by (simp add: scenario_cls_prob_def)
  note c = conjunct1 [OF label_assignment [OF h1 h2 h3, of "init 2 scenario_config"]]
  show ?thesis
    by (rule conjI [OF h1 conjI [OF h2 conjI [OF h3' c]]])
qed

text \<open>
  C3, as the specification states it, fails: two boxes of one class whose intersection
  over union is exactly the threshold 1/2 are both retained. The suppression of
  \<^verbatim>\<open>tf.image.non_max_suppression\<close> needs an overlap greater than the threshold.
\<close>

theorem tie_at_threshold_retained:
  "build (init 1 tie_config) tie_proposals tie_bbox_pred tie_cls_prob (10, 10)
   = Inr tie_result
   \<and> selected_boxes tie_result ! 0 = [(0, 0, 1, 3), (0, 1, 1, 4)]
   \<and> iou (0, 0, 1, 3) (0, 1, 1, 4) = self_class_nms_threshold (init 1 tie_config)
   \<and> \<not> iou (0, 0, 1, 3) (0, 1, 1, 4) < self_class_nms_threshold (init 1 tie_config)"
proof -
  have "iou (0, 0, 1, 3) (0, 1, 1, 4) = 1 / 2"
    by (simp add: iou_def box_area_def intersection_area_def)
  moreover have "self_class_nms_threshold (init 1 tie_config) = 1 / 2"
    by (simp add: init_def tie_config_def)
  moreover have "selected_boxes tie_result ! 0 = [(0, 0, 1, 3), (0, 1, 1, 4)]"
    by (simp add: tie_result_def)
  ultimately show ?thesis
    using tie_build by simp
qed

text \<open>
  C3, amended. Whenever the module returns, any two boxes with an area that are retained
  for the same class have an intersection over union that is at most
  \<open>class_nms_threshold\<close>. The threshold is exclusive on the side of the suppression:
  \<^verbatim>\<open>tf.image.non_max_suppression\<close> leaves a candidate out only when it has
  selected as many boxes as it may, or when a box it has selected and the candidate both
  have an area and overlap by more than the threshold.
\<close>

theorem retained_boxes_overlap_at_most_threshold:
  "(\<forall>out c i j.
      build self proposals bbox_pred cls_prob im_shape = Inr out
      \<longrightarrow> c < self_num_classes self \<longrightarrow> i < j \<longrightarrow> j < length (selected_boxes out ! c)
      \<longrightarrow> 0 < box_area (selected_boxes out ! c ! i)
      \<longrightarrow> 0 < box_area (selected_boxes out ! c ! j)
      \<longrightarrow> iou (selected_boxes out ! c ! i) (selected_boxes out ! c ! j)
          \<le> self_class_nms_threshold self)
   \<and> (\<forall>idx i.
        non_max_suppression boxes scores max_output_size iou_threshold = Inr idx
        \<longrightarrow> i < length boxes \<longrightarrow> i \<notin> set idx
        \<longrightarrow> length idx = min (nat max_output_size) (length boxes)
            \<or> (\<exists>j\<in>set idx.
                  0 < box_area (boxes ! i) \<and> 0 < box_area (boxes ! j)
                  \<and> iou_threshold < iou (boxes ! i) (boxes ! j)))"
proof (intro conjI allI impI)
  fix out c i j
  assume b: "build self proposals bbox_pred cls_prob im_shape = Inr out"
    and c: "c < self_num_classes self" and ij: "i < j"
    and j: "j < length (selected_boxes out ! c)"
  from build_class [OF b c] obtain objs ls prs where
    "class_nms self objs ls prs c
     = Inr (selected_boxes out ! c, selected_probs out ! c, selected_labels out ! c)"
    by blast
  from class_nms_pairwise [OF this]
  show "iou (selected_boxes out ! c ! i) (selected_boxes out ! c ! j)
        \<le> self_class_nms_threshold self"
    using ij j by (simp add: sorted_wrt_iff_nth_less)
next
  fix idx i
  assume nms: "non_max_suppression boxes scores max_output_size iou_threshold = Inr idx"
    and i: "i < length boxes" and out: "i \<notin> set idx"
  note n = non_max_suppression_Inr [OF nms]
  let ?n = "min (nat max_output_size) (length boxes)"
  let ?cands = "sort_key (\<lambda>i. - (scores ! i)) [0..<length boxes]"
  have "i \<in> set ?cands" using i by simp
  from nms_loop_left_out [OF this out [unfolded n(5)]]
  have "?n \<le> length idx
        \<or> (\<exists>j\<in>set idx.
              iou_greater_than_threshold (boxes ! i) (boxes ! j) iou_threshold)"
    unfolding n(5) [symmetric] .
  moreover have "length idx \<le> ?n"
    using nms_loop_length [of boxes iou_threshold ?n ?cands "[]"]
    unfolding n(5) [symmetric] by simp
  ultimately show "length idx = ?n
        \<or> (\<exists>j\<in>set idx.
              0 < box_area (boxes ! i) \<and> 0 < box_area (boxes ! j)
              \<and> iou_threshold < iou (boxes ! i) (boxes ! j))"
    using iou_greater_than_threshold_area by (metis le_antisym)
qed

text \<open>
  Witness of the amended C3: the two boxes retained for class 0 of the tie, and the
  second box of class 0 of the scenario, which the first one suppresses.
\<close>

theorem retained_boxes_overlap_at_most_threshold_witness:
  "build (init 1 tie_config) tie_proposals tie_bbox_pred tie_cls_prob (10, 10)
   = Inr tie_result
   \<and> 0 < self_num_classes (init 1 tie_config)
   \<and> (0::nat) < 1
   \<and> 1 < length (selected_boxes tie_result ! 0)
   \<and> 0 < box_area (selected_boxes tie_result ! 0 ! 0)
   \<and> 0 < box_area (selected_boxes tie_result ! 0 ! 1)
   \<and> iou (selected_boxes tie_result ! 0 ! 0) (selected_boxes tie_result ! 0 ! 1)
       \<le> self_class_nms_threshold (init 1 tie_config)
   \<and> non_max_suppression [(0, 0, 10, 10), (1, 1, 11, 11)] [4 / 5, 3 / 4] 10 (3 / 10)
       = Inr [0]
   \<and> (1::nat) < length [(0, 0, 10, 10), (1, 1, 11, 11) :: box]
   \<and> (1::nat) \<notin> set [0]
   \<and> (length [0::nat] = min (nat 10) (length [(0, 0, 10, 10), (1, 1, 11, 11) :: box])
       \<or> (\<exists>j\<in>set [0::nat].
             0 < box_area ([(0, 0, 10, 10), (1, 1, 11, 11)] ! 1)
             \<and> 0 < box_area ([(0, 0, 10, 10), (1, 1, 11, 11)] ! j)
             \<and> 3 / 10 < iou ([(0, 0, 10, 10), (1, 1, 11, 11)] ! 1)
                           ([(0, 0, 10, 10), (1, 1, 11, 11)] ! j)))"
proof -
  have h2: "0 < self_num_classes (init 1 tie_config)" by (simp add: init_def)
  have h3: "(0::nat) < 1" by simp
  have h4: "1 < length (selected_boxes tie_result ! 0)" by (simp add: tie_result_def)
  have h5: "0 < box_area (selected_boxes tie_result ! 0 ! 0)"
    by (simp add: tie_result_def box_area_def)
  have h6: "0 < box_area (selected_boxes tie_result ! 0 ! 1)"
    by (simp add: tie_result_def box_area_def)
  have n1: "non_max_suppression [(0, 0, 10, 10), (1, 1, 11, 11)] [4 / 5, 3 / 4] 10 (3 / 10)
            = Inr [0]"
    by code_simp
  have n2: "(1::nat) < length [(0, 0, 10, 10), (1, 1, 11, 11) :: box]" by simp
  have n3: "(1::nat) \<notin> set [0]" by simp
  note t = retained_boxes_overlap_at_most_threshold
    [of "init 1 tie_config" tie_proposals tie_bbox_pred tie_cls_prob "(10, 10)"
        "[(0, 0, 10, 10), (1, 1, 11, 11)]" "[4 / 5, 3 / 4]" 10 "3 / 10"]
  note c1 = conjunct1 [OF t, rule_format, OF tie_build h2 h3 h4 h5 h6]
  note c2 = conjunct2 [OF t, rule_format, OF n1 n2 n3]
  show ?thesis
    by (intro conjI tie_build h2 h3 h4 h5 h6 c1 n1 n2 n3 c2)
qed

text \<open>
  C4. Whenever the module returns, there is one selection for every class, no selection
  holds more than \<open>class_max_detections\<close> boxes, the final objects, labels and
  probabilities have the same length, which is at most \<open>total_max_detections\<close>, and
  the final probabilities are in descending order.
\<close>

theorem detection_counts_bounded:
  assumes "build self proposals bbox_pred cls_prob im_shape = Inr out"
  shows "length (selected_boxes out) = self_num_classes self
         \<and> (\<forall>c<self_num_classes self.
               int (length (selected_boxes out ! c)) \<le> self_class_max_detections self
               \<and> length (selected_probs out ! c) = length (selected_boxes out ! c)
               \<and> length (selected_labels out ! c) = length (selected_boxes out ! c))
         \<and> int (length (objects out)) \<le> self_total_max_detections self
         \<and> length (proposal_label out) = length (objects out)
         \<and> length (proposal_label_prob out) = length (objects out)
         \<and> sorted_wrt (\<lambda>p q. q \<le> p) (proposal_label_prob out)"
proof -
  have "int (length (selected_boxes out ! c)) \<le> self_class_max_detections self
        \<and> length (selected_probs out ! c) = length (selected_boxes out ! c)
        \<and> length (selected_labels out ! c) = length (selected_boxes out ! c)"
    if "c < self_num_classes self" for c
  proof -
    from build_class [OF assms that] obtain objs ls prs where
      "class_nms self objs ls prs c
       = Inr (selected_boxes out ! c, selected_probs out ! c, selected_labels out ! c)"
      by blast
    from class_nms_count [OF this] show ?thesis by simp
  qed
  moreover from build_Inr [OF assms] obtain raw ls prs where
    "select_detections self raw ls prs im_shape = Inr out" by blast
  from select_detections_Inr [OF this] have
    "top_k_selector self (selected_boxes out) (selected_probs out) (selected_labels out)
     = Inr (objects out, proposal_label out, proposal_label_prob out)"
    by blast
  note top_k_selector_bounds [OF this]
  ultimately show ?thesis
    using build_selected_length [OF assms] by simp
qed

text \<open>Witness of C4: the scenario.\<close>

theorem detection_counts_bounded_witness:
  "build (init 2 scenario_config) scenario_proposals scenario_bbox_pred scenario_cls_prob
     (100, 100) = Inr scenario_result
   \<and> length (selected_boxes scenario_result) = self_num_classes (init 2 scenario_config)
   \<and> int (length (objects scenario_result))
       \<le> self_total_max_detections (init 2 scenario_config)
   \<and> sorted_wrt (\<lambda>p q. q \<le> p) (proposal_label_prob scenario_result)"
  using detection_counts_bounded [OF scenario_build] scenario_build
  by blast

text \<open>
  C5. The area filter keeps a clipped box if and only if
  \<open>max (x_max - x_min) 0 * max (y_max - y_min) 0\<close> is at least 0; this holds of every
  box, so the filter returns the boxes, the labels and the probabilities it was given,
  unchanged and in order.
\<close>

theorem validity_filter_keeps_all:
  assumes "length labels = length clipped_objects"
    and "length probs = length clipped_objects"
  shows "object_filter clipped_objects =
           map (\<lambda>(x_min, y_min, x_max, y_max).
                  0 \<le> max (x_max - x_min) 0 * max (y_max - y_min) 0) clipped_objects
         \<and> list_all (\<lambda>keep. keep) (object_filter clipped_objects)
         \<and> validity_filter clipped_objects labels probs =
             Inr (clipped_objects, labels, probs)"
proof -
  have "list_all (\<lambda>keep. keep) (object_filter clipped_objects)"
    by (simp add: object_filter_all list_all_iff)
  moreover have "validity_filter clipped_objects labels probs =
                   Inr (clipped_objects, labels, probs)"
    using assms
    by (simp add: validity_filter_def object_filter_all boolean_mask_all_True)
  ultimately show ?thesis
    by (simp add: object_filter_def)
qed

text \<open>Witness of C5: the three clipped boxes of the scenario.\<close>

theorem validity_filter_keeps_all_witness:
  "length [0, 0, 1 :: int] = length [(0, 0, 10, 10), (1, 1, 11, 11), (50, 50, 60, 60) :: box]
   \<and> length [4 / 5, 3 / 4, 9 / 10 :: real]
       = length [(0, 0, 10, 10), (1, 1, 11, 11), (50, 50, 60, 60) :: box]
   \<and> validity_filter [(0, 0, 10, 10), (1, 1, 11, 11), (50, 50, 60, 60)] [0, 0, 1]
        [4 / 5, 3 / 4, 9 / 10]
      = Inr ([(0, 0, 10, 10), (1, 1, 11, 11), (50, 50, 60, 60)], [0, 0, 1],
             [4 / 5, 3 / 4, 9 / 10])"
proof -
  have h1: "length [0, 0, 1 :: int]
            = length [(0, 0, 10, 10), (1, 1, 11, 11), (50, 50, 60, 60) :: box]" by simp
  have h2: "length [4 / 5, 3 / 4, 9 / 10 :: real]
            = length [(0, 0, 10, 10), (1, 1, 11, 11), (50, 50, 60, 60) :: box]" by simp
  show ?thesis
    using validity_filter_keeps_all [OF h1 h2] by simp
qed

text \<open>
  C6. The specification promises a ShapeMismatch error whenever the three row counts
  differ. The module asserts the row counts of the proposals and of the deltas only
  (line 89). With three proposals, three rows of deltas and one row of probabilities the
  assertion passes, the mask has one entry, and the call returns the detection of the
  first proposal: the other two proposals are dropped without an error.
\<close>

theorem missing_probabilities_truncate:
  "length scenario_proposals = 3 \<and> length scenario_bbox_pred = 3
   \<and> length short_cls_prob = 1
   \<and> build (init 2 scenario_config) scenario_proposals scenario_bbox_pred short_cls_prob
        (100, 100)
      = Inr \<lparr> raw_objects = [(0, 0, 10, 10)], objects = [(0, 0, 10, 10)],
              proposal_label = [0], proposal_label_prob = [4 / 5],
              selected_boxes = [[(0, 0, 10, 10)], []],
              selected_probs = [[4 / 5], []], selected_labels = [[0], []] \<rparr>"
  by (simp add: build_def short_assign_and_gather short_decode short_select_detections)
     (simp add: scenario_proposals_def scenario_bbox_pred_def short_cls_prob_def)

text \<open>
  C7. The specification promises a ShapeMismatch error, before any other stage, for
  proposals whose rows do not hold five values. Line 70 evaluates \<^verbatim>\<open>tf.equal\<close>,
  which asserts nothing. With rows of four values the first column is sliced off all the
  same, label assignment and the gathering of the deltas run on the rows of three, and
  the call fails only when the rows are decoded, with another error.
\<close>

theorem narrow_proposals_not_asserted:
  "list_all (\<lambda>row. length row = 4) narrow_proposals
   \<and> assign_and_gather (init 2 scenario_config) narrow_proposals scenario_bbox_pred
        scenario_cls_prob
      = Inr ([[0, 10, 10], [1, 11, 11], [50, 60, 60]], [0, 0, 1],
             [4 / 5, 3 / 4, 9 / 10], [(0, 0, 0, 0), (0, 0, 0, 0), (0, 0, 0, 0)])
   \<and> build (init 2 scenario_config) narrow_proposals scenario_bbox_pred scenario_cls_prob
        (100, 100) = Inl InvalidArgument"
  by (simp add: build_def narrow_assign_and_gather narrow_decode)
     (simp add: narrow_proposals_def)






text \<open>
  C10. A row of probabilities whose maximum is attained at index 0, also when a
  foreground class attains it as well, has arg-max 0 and label -1; the filter is false
  for it whatever the threshold, and whenever label assignment returns, the row, its
  proposal and its deltas are not among the rows it returns.
\<close>

theorem background_row_dropped:
  assumes "i < length cls_prob" and "cls_prob ! i \<noteq> []"
    and "\<forall>v\<in>set (cls_prob ! i). v \<le> hd (cls_prob ! i)"
  shows "int (argmax (cls_prob ! i)) - 1 = - 1
         \<and> \<not> proposal_filter self cls_prob ! i
         \<and> (\<forall>ps ls prs bs.
               label_assigner self proposals bbox_pred cls_prob = Inr (ps, ls, prs, bs)
               \<longrightarrow> (\<exists>kept. i \<notin> kept
                      \<and> ps = nths (map (drop 1) proposals) kept
                      \<and> ls = nths (map (\<lambda>row. int (argmax row) - 1) cls_prob) kept
                      \<and> prs = nths (map reduce_max cls_prob) kept
                      \<and> bs = nths bbox_pred kept))"
proof -
  have a: "argmax (cls_prob ! i) = 0"
    using assms(2,3) by (rule argmax_background)
  have f: "\<not> proposal_filter self cls_prob ! i"
    using assms(1) a by (simp add: proposal_filter_def)
  have "\<exists>kept. i \<notin> kept
          \<and> ps = nths (map (drop 1) proposals) kept
          \<and> ls = nths (map (\<lambda>row. int (argmax row) - 1) cls_prob) kept
          \<and> prs = nths (map reduce_max cls_prob) kept
          \<and> bs = nths bbox_pred kept"
    if "label_assigner self proposals bbox_pred cls_prob = Inr (ps, ls, prs, bs)"
    for ps ls prs bs
    using label_assigner_Inr [OF that] f
    by (intro exI [of _ "{j. j < length cls_prob \<and> proposal_filter self cls_prob ! j}"]) simp
  then show ?thesis using a f by simp
qed

text \<open>
  Witness of C10: the first of two rows has the background and the only foreground class
  tied at 1/2.
\<close>

theorem background_row_dropped_witness:
  "(0::nat) < length [[1 / 2, 1 / 2 :: real], [1 / 10, 9 / 10]]
   \<and> [[1 / 2, 1 / 2 :: real], [1 / 10, 9 / 10]] ! 0 \<noteq> []
   \<and> list_all (\<lambda>v. v \<le> hd ([[1 / 2, 1 / 2 :: real], [1 / 10, 9 / 10]] ! 0))
        ([[1 / 2, 1 / 2], [1 / 10, 9 / 10]] ! 0)
   \<and> int (argmax ([[1 / 2, 1 / 2], [1 / 10, 9 / 10]] ! 0)) - 1 = - 1
   \<and> \<not> proposal_filter (init 1 tie_config) [[1 / 2, 1 / 2], [1 / 10, 9 / 10]] ! 0"
proof -
  have h1: "(0::nat) < length [[1 / 2, 1 / 2 :: real], [1 / 10, 9 / 10]]" by simp
  have h2: "[[1 / 2, 1 / 2 :: real], [1 / 10, 9 / 10]] ! 0 \<noteq> []" by simp
  have h3: "\<forall>v\<in>set ([[1 / 2, 1 / 2 :: real], [1 / 10, 9 / 10]] ! 0).
              v \<le> hd ([[1 / 2, 1 / 2], [1 / 10, 9 / 10]] ! 0)" by simp
  show ?thesis
    using background_row_dropped [OF h1 h2 h3, of "init 1 tie_config" "[]" "[]"] by simp
qed

end
